theory Spec2Isabelle
  imports Complex_Main
begin

section \<open>Python values\<close>

text \<open>
  The values that flow through the items of \<^verbatim>\<open>src/ludoj/items.py\<close> and the spiders:
  None, booleans, integers, floats (by their real value), strings, lists, JSON objects
  and datetimes (by a timestamp).
\<close>

datatype pyval =
    PNone
  | PBool bool
  | PInt int
  | PFloat real
  | PStr string
  | PList "pyval list"
  | PDict "(string \<times> pyval) list"
  | PDatetime int

datatype pytype = NoneType | TBool | TInt | TFloat | TStr | TList | TDict | TDatetime

fun type_of :: "pyval \<Rightarrow> pytype" where
  "type_of PNone = NoneType"
| "type_of (PBool b) = TBool"
| "type_of (PInt n) = TInt"
| "type_of (PFloat x) = TFloat"
| "type_of (PStr s) = TStr"
| "type_of (PList xs) = TList"
| "type_of (PDict kvs) = TDict"
| "type_of (PDatetime t) = TDatetime"

text \<open>In Python \<^verbatim>\<open>bool\<close> is a subclass of \<^verbatim>\<open>int\<close>; the other classes here are unrelated.\<close>

definition issubclass :: "pytype \<Rightarrow> pytype \<Rightarrow> bool" where
  "issubclass t u = (t = u \<or> (t = TBool \<and> u = TInt))"

text \<open>A field's \<^verbatim>\<open>dtype\<close> is a class or a tuple of classes.\<close>

datatype dtype = Single pytype | Tuple "pytype list"

fun isinstance :: "pyval \<Rightarrow> dtype \<Rightarrow> bool" where
  "isinstance v (Single t) = issubclass (type_of v) t"
| "isinstance v (Tuple ts) = list_ex (issubclass (type_of v)) ts"

text \<open>Truth value testing, as \<^verbatim>\<open>if v\<close>, \<^verbatim>\<open>v or None\<close> and \<^verbatim>\<open>not v\<close> use it.\<close>

fun truthy :: "pyval \<Rightarrow> bool" where
  "truthy PNone = False"
| "truthy (PBool b) = b"
| "truthy (PInt n) = (n \<noteq> 0)"
| "truthy (PFloat x) = (x \<noteq> 0)"
| "truthy (PStr s) = (s \<noteq> [])"
| "truthy (PList xs) = (xs \<noteq> [])"
| "truthy (PDict kvs) = (kvs \<noteq> [])"
| "truthy (PDatetime t) = True"

section \<open>Errors\<close>

text \<open>
  \<open>ValueError_mismatch key d t\<close> is the \<^verbatim>\<open>ValueError\<close> of \<^verbatim>\<open>TypedItem.__setitem__\<close>, whose
  message \<^verbatim>\<open>field <key> requires type d but found type t\<close> names the field, the declared
  type and the type found. \<open>ValueError_other\<close> is any other \<^verbatim>\<open>ValueError\<close>.
\<close>

datatype error =
    ValueError_mismatch string dtype pytype
  | ValueError_other string
  | AssertionError
  | KeyError string
  | IndexError
  | TypeError string

fun is_ValueError :: "error \<Rightarrow> bool" where
  "is_ValueError (ValueError_mismatch key d t) = True"
| "is_ValueError (ValueError_other msg) = True"
| "is_ValueError e = False"

section \<open>Fields and items\<close>

text \<open>
  A \<^verbatim>\<open>dtype_convert\<close> entry is either a function (\<^verbatim>\<open>parse_int\<close>, \<^verbatim>\<open>parse_float\<close>,
  \<^verbatim>\<open>parse_bool\<close>: the normalizers, which return a value or None and do not raise) or some
  other object, of which only the truth value matters.
\<close>

datatype converter = Callable "pyval \<Rightarrow> pyval" | NonCallable bool

text \<open>
  A scrapy \<^verbatim>\<open>Field\<close> is a dict of metadata; these are the keys the methods of
  \<^verbatim>\<open>TypedItem\<close> and the exporter read. An absent key is \<open>None\<close>.
\<close>

record field =
  setter :: "(pyval \<Rightarrow> pyval) option"
  dtype :: "dtype option"
  dtype_convert :: "converter option"
  parser :: "(pyval \<Rightarrow> pyval) option"
  serializer :: "(pyval \<Rightarrow> pyval) option"

definition empty_field :: field where
  "empty_field = \<lparr>setter = None, dtype = None, dtype_convert = None, parser = None,
     serializer = None\<rparr>"

text \<open>scrapy's \<^verbatim>\<open>Identity\<close> processor returns its argument.\<close>

definition IDENTITY :: "pyval \<Rightarrow> pyval" where
  "IDENTITY values = values"

text \<open>
  The values of an item are a Python dict: assigning to a key that is present replaces
  the value in place, assigning to a new key appends it.
\<close>

type_synonym item = "(string \<times> pyval) list"

fun dict_set :: "('k \<times> 'v) list \<Rightarrow> 'k \<Rightarrow> 'v \<Rightarrow> ('k \<times> 'v) list" where
  "dict_set [] k v = [(k, v)]"
| "dict_set ((k', v') # kvs) k v =
     (if k' = k then (k, v) # kvs else (k', v') # dict_set kvs k v)"

text \<open>
  \<^verbatim>\<open>scrapy.Item.__setitem__\<close>: only a declared field can be assigned, any other key
  raises \<^verbatim>\<open>KeyError\<close>. \<^verbatim>\<open>scrapy.Item.__getitem__\<close> reads the stored value.
\<close>

definition Item_setitem ::
  "(string \<times> field) list \<Rightarrow> item \<Rightarrow> string \<Rightarrow> pyval \<Rightarrow> error + item" where
  "Item_setitem flds self key v =
     (if key \<in> fst ` set flds then Inr (dict_set self key v) else Inl (KeyError key))"

definition Item_getitem :: "item \<Rightarrow> string \<Rightarrow> error + pyval" where
  "Item_getitem self key =
     (case map_of self key of None \<Rightarrow> Inl (KeyError key) | Some v \<Rightarrow> Inr v)"

subsection \<open>\<^verbatim>\<open>TypedItem.__setitem__\<close>\<close>

text \<open>
  The converter that \<^verbatim>\<open>__setitem__\<close> ends up calling:
  \<^verbatim>\<open>convert if callable(convert) else dtype[0] if isinstance(dtype, tuple) else dtype\<close>.
  Calling a class constructs a value and may raise; \<open>call_type\<close>, a parameter, stands for
  the constructors of the Python classes.
\<close>

fun apply_convert ::
  "(pytype \<Rightarrow> pyval \<Rightarrow> error + pyval) \<Rightarrow> converter \<Rightarrow> dtype \<Rightarrow> pyval \<Rightarrow> error + pyval" where
  "apply_convert call_type (Callable f) d v = Inr (f v)"
| "apply_convert call_type (NonCallable b) (Tuple []) v = Inl IndexError"
| "apply_convert call_type (NonCallable b) (Tuple (t # ts)) v = call_type t v"
| "apply_convert call_type (NonCallable b) (Single t) v = call_type t v"

text \<open>The truth value of the \<^verbatim>\<open>dtype_convert\<close> entry; a function is true.\<close>

fun convert_truthy :: "converter \<Rightarrow> bool" where
  "convert_truthy (Callable f) = True"
| "convert_truthy (NonCallable b) = b"

text \<open>\<^verbatim>\<open>field.get('setter', IDENTITY)\<close>\<close>

definition setter_of :: "field \<Rightarrow> pyval \<Rightarrow> pyval" where
  "setter_of fld = (case setter fld of None \<Rightarrow> IDENTITY | Some s \<Rightarrow> s)"

text \<open>
  The assignment mutates the item before it checks the type, so a failed assignment
  leaves the value it stored: the error comes with the item as the failure left it.
  The \<^verbatim>\<open>assert\<close> is a raise of \<^verbatim>\<open>AssertionError\<close>.
\<close>

definition setitem ::
  "(pytype \<Rightarrow> pyval \<Rightarrow> error + pyval) \<Rightarrow> (string \<times> field) list \<Rightarrow> item \<Rightarrow> string \<Rightarrow> pyval
     \<Rightarrow> (error \<times> item) + item" where
  "setitem call_type flds self key value =
     (let fld = (case map_of flds key of None \<Rightarrow> empty_field | Some f \<Rightarrow> f)
      in case Item_setitem flds self key (setter_of fld value) of
           Inl e \<Rightarrow> Inl (e, self)
         | Inr self1 \<Rightarrow>
             (case Item_getitem self1 key of
                Inl e \<Rightarrow> Inl (e, self1)
              | Inr stored \<Rightarrow>
                  (case dtype fld of
                     None \<Rightarrow> Inr self1
                   | Some d \<Rightarrow>
                       if stored = PNone \<or> isinstance stored d then Inr self1
                       else
                         (case dtype_convert fld of
                            None \<Rightarrow> Inl (ValueError_mismatch key d (type_of stored), self1)
                          | Some convert \<Rightarrow>
                              if \<not> convert_truthy convert
                              then Inl (ValueError_mismatch key d (type_of stored), self1)
                              else
                                (case apply_convert call_type convert d stored of
                                   Inl e \<Rightarrow> Inl (e, self1)
                                 | Inr value' \<Rightarrow>
                                     if isinstance value' d \<or> value' = PNone
                                     then (case Item_setitem flds self1 key (setter_of fld value') of
                                             Inl e \<Rightarrow> Inl (e, self1)
                                           | Inr self2 \<Rightarrow> Inr self2)
                                     else Inl (AssertionError, self1))))))"

section \<open>Value normalizers\<close>

text \<open>
  Modelled from the spec: \<^verbatim>\<open>parse_int\<close> of \<^verbatim>\<open>utils.py\<close>, which is not under
  \<^verbatim>\<open>src/\<close>. The spec: it "strips thousands separators" and "fails to no value on
  non-numeric content". The model reads an integer as it is and a string of decimal
  digits, with an optional sign, after the separators \<^verbatim>\<open>,\<close> are removed; anything else
  is no value.
\<close>

definition digit_value :: "char \<Rightarrow> nat option" where
  "digit_value = map_of (zip ''0123456789'' [0, 1, 2, 3, 4, 5, 6, 7, 8, 9])"

fun digits_value :: "nat \<Rightarrow> string \<Rightarrow> nat option" where
  "digits_value acc [] = Some acc"
| "digits_value acc (c # cs) =
     (case digit_value c of None \<Rightarrow> None | Some d \<Rightarrow> digits_value (10 * acc + d) cs)"

fun int_of_string :: "string \<Rightarrow> int option" where
  "int_of_string [] = None"
| "int_of_string (c # cs) =
     (if c = CHR ''-'' then (if cs = [] then None else map_option (\<lambda>n. - int n) (digits_value 0 cs))
      else map_option int (digits_value 0 (c # cs)))"

fun parse_int :: "pyval \<Rightarrow> pyval" where
  "parse_int (PInt n) = PInt n"
| "parse_int (PStr s) =
     (case int_of_string (filter (\<lambda>c. c \<noteq> CHR '','') s) of
        None \<Rightarrow> PNone
      | Some n \<Rightarrow> PInt n)"
| "parse_int v = PNone"

text \<open>
  Modelled from the spec: \<^verbatim>\<open>parse_bool\<close> of \<^verbatim>\<open>utils.py\<close>, which is not under
  \<^verbatim>\<open>src/\<close>. The spec: it "accepts a closed set of truthy/falsy string tokens (e.g.
  "true"/"yes"/"1" vs "false"/"no"/"0"); unrecognized tokens fail to no value". The model
  takes the six tokens the spec names.
\<close>

definition parse_bool :: "pyval \<Rightarrow> pyval" where
  "parse_bool v =
     (if v = PStr ''true'' \<or> v = PStr ''yes'' \<or> v = PStr ''1'' then PBool True
      else if v = PStr ''false'' \<or> v = PStr ''no'' \<or> v = PStr ''0'' then PBool False
      else PNone)"

text \<open>
  \<^verbatim>\<open>_serialize_bool\<close> of \<^verbatim>\<open>items.py\<close>:
  \<^verbatim>\<open>int(item) if isinstance(item, bool) else None\<close>.
\<close>

fun serialize_bool :: "pyval \<Rightarrow> pyval" where
  "serialize_bool (PBool b) = PInt (if b then 1 else 0)"
| "serialize_bool v = PNone"

subsection \<open>Field declarations of \<^verbatim>\<open>items.py\<close>\<close>

text \<open>
  \<^verbatim>\<open>name = Field(dtype=str, required=True)\<close>,
  \<^verbatim>\<open>year = Field(dtype=int, dtype_convert=parse_int, ...)\<close>,
  \<^verbatim>\<open>num_votes = Field(dtype=int, dtype_convert=parse_int, ...)\<close>,
  \<^verbatim>\<open>cooperative = Field(dtype=bool, serializer=_serialize_bool, parser=parse_bool, ...)\<close>
  of \<^verbatim>\<open>GameItem\<close>, and
  \<^verbatim>\<open>bgg_user_owned = Field(dtype=bool, dtype_convert=parse_bool, serializer=_serialize_bool,
  parser=parse_bool, ...)\<close> of \<^verbatim>\<open>RatingItem\<close>. No field of \<^verbatim>\<open>items.py\<close> declares a
  \<^verbatim>\<open>setter\<close>.
\<close>

definition GameItem_name :: field where
  "GameItem_name = \<lparr>setter = None, dtype = Some (Single TStr), dtype_convert = None,
     parser = None, serializer = None\<rparr>"

definition GameItem_year :: field where
  "GameItem_year = \<lparr>setter = None, dtype = Some (Single TInt),
     dtype_convert = Some (Callable parse_int), parser = None, serializer = None\<rparr>"

definition GameItem_num_votes :: field where
  "GameItem_num_votes = \<lparr>setter = None, dtype = Some (Single TInt),
     dtype_convert = Some (Callable parse_int), parser = None, serializer = None\<rparr>"

definition GameItem_cooperative :: field where
  "GameItem_cooperative = \<lparr>setter = None, dtype = Some (Single TBool), dtype_convert = None,
     parser = Some parse_bool, serializer = Some serialize_bool\<rparr>"

definition RatingItem_bgg_user_owned :: field where
  "RatingItem_bgg_user_owned = \<lparr>setter = None, dtype = Some (Single TBool),
     dtype_convert = Some (Callable parse_bool), parser = Some parse_bool,
     serializer = Some serialize_bool\<rparr>"

section \<open>\<^verbatim>\<open>TypedItem.parse\<close> and \<^verbatim>\<open>TypedItem.clean\<close>\<close>

text \<open>
  \<^verbatim>\<open>parse\<close> loops over the declared fields; \<open>raw\<close> is the dict-like input, read with
  \<^verbatim>\<open>item.get(key)\<close>. Only a \<^verbatim>\<open>ValueError\<close> of the first assignment is caught; the
  second assignment, of \<^verbatim>\<open>parser(value)\<close>, is outside the \<^verbatim>\<open>try\<close>.
\<close>

text \<open>\<^verbatim>\<open>item.get(key)\<close> and \<^verbatim>\<open>properties.get('parser', IDENTITY)\<close>\<close>

definition dict_get :: "(string \<Rightarrow> pyval option) \<Rightarrow> string \<Rightarrow> pyval" where
  "dict_get item key = (case item key of None \<Rightarrow> PNone | Some v \<Rightarrow> v)"

definition parser_of :: "field \<Rightarrow> pyval \<Rightarrow> pyval" where
  "parser_of properties = (case parser properties of None \<Rightarrow> IDENTITY | Some p \<Rightarrow> p)"

fun parse_loop ::
  "(pytype \<Rightarrow> pyval \<Rightarrow> error + pyval) \<Rightarrow> (string \<times> field) list \<Rightarrow> (string \<times> field) list
     \<Rightarrow> (string \<Rightarrow> pyval option) \<Rightarrow> item \<Rightarrow> error + item" where
  "parse_loop call_type flds [] raw article = Inr article"
| "parse_loop call_type flds ((key, properties) # rest) raw article =
     (let value = dict_get raw key
      in if value = PNone \<or> value = PStr [] then parse_loop call_type flds rest raw article
         else
           (case setitem call_type flds article key value of
              Inr article1 \<Rightarrow> parse_loop call_type flds rest raw article1
            | Inl (e, article1) \<Rightarrow>
                if is_ValueError e
                then (case setitem call_type flds article1 key (parser_of properties value) of
                        Inr article2 \<Rightarrow> parse_loop call_type flds rest raw article2
                      | Inl (e2, article2) \<Rightarrow> Inl e2)
                else Inl e))"

definition parse ::
  "(pytype \<Rightarrow> pyval \<Rightarrow> error + pyval) \<Rightarrow> (string \<times> field) list \<Rightarrow> (string \<Rightarrow> pyval option)
     \<Rightarrow> error + item" where
  "parse call_type flds raw = parse_loop call_type flds flds raw []"

text \<open>
  \<^verbatim>\<open>scrapy.Item.__init__\<close> assigns every pair of its argument with \<^verbatim>\<open>self[k] = v\<close>;
  an error of an assignment leaves the constructor.
\<close>

fun Item_init ::
  "(pytype \<Rightarrow> pyval \<Rightarrow> error + pyval) \<Rightarrow> (string \<times> field) list \<Rightarrow> (string \<times> pyval) list
     \<Rightarrow> item \<Rightarrow> error + item" where
  "Item_init call_type flds [] self = Inr self"
| "Item_init call_type flds ((k, v) # kvs) self =
     (case setitem call_type flds self k v of
        Inl (e, self1) \<Rightarrow> Inl e
      | Inr self1 \<Rightarrow> Item_init call_type flds kvs self1)"

text \<open>\<^verbatim>\<open>cls({k: v for k, v in item.items() if v and k in cls.fields})\<close>\<close>

definition clean ::
  "(pytype \<Rightarrow> pyval \<Rightarrow> error + pyval) \<Rightarrow> (string \<times> field) list \<Rightarrow> (string \<times> pyval) list
     \<Rightarrow> error + item" where
  "clean call_type flds item =
     Item_init call_type flds (filter (\<lambda>(k, v). truthy v \<and> k \<in> fst ` set flds) item) []"

section \<open>Input processors\<close>

text \<open>
  scrapy's \<^verbatim>\<open>arg_to_iter\<close> and \<^verbatim>\<open>MapCompose\<close>: every function is applied to every value,
  a result None is dropped and a list result is flattened, so a value that a function
  maps to None does not reach the functions after it.
\<close>

fun arg_to_iter :: "pyval \<Rightarrow> pyval list" where
  "arg_to_iter PNone = []"
| "arg_to_iter (PList xs) = xs"
| "arg_to_iter v = [v]"

definition MapCompose :: "(pyval \<Rightarrow> pyval) list \<Rightarrow> pyval \<Rightarrow> pyval list" where
  "MapCompose functions value =
     fold (\<lambda>func values. concat (map (\<lambda>v. arg_to_iter (func v)) values)) functions
       (arg_to_iter value)"

text \<open>
  Modelled from the spec: \<^verbatim>\<open>parse_float\<close> of \<^verbatim>\<open>utils.py\<close>, which is not under
  \<^verbatim>\<open>src/\<close>, with the same contract as \<^verbatim>\<open>parse_int\<close>. The model reads a number as it
  is and a decimal string, with an optional sign and an optional fraction.
\<close>

definition unsigned_float :: "string \<Rightarrow> real option" where
  "unsigned_float s =
     (let ip = takeWhile (\<lambda>c. c \<noteq> CHR ''.'') s;
          fp = (case dropWhile (\<lambda>c. c \<noteq> CHR ''.'') s of [] \<Rightarrow> [] | c # f \<Rightarrow> f)
      in if ip = [] \<and> fp = [] then None
         else (case (digits_value 0 ip, digits_value 0 fp) of
                 (Some i, Some f) \<Rightarrow> Some (real i + real f / 10 ^ length fp)
               | _ \<Rightarrow> None))"

fun float_of_string :: "string \<Rightarrow> real option" where
  "float_of_string [] = None"
| "float_of_string (c # cs) =
     (if c = CHR ''-'' then map_option uminus (unsigned_float cs) else unsigned_float (c # cs))"

fun parse_float :: "pyval \<Rightarrow> pyval" where
  "parse_float (PFloat x) = PFloat x"
| "parse_float (PInt n) = PFloat (real_of_int n)"
| "parse_float (PStr s) =
     (case float_of_string (filter (\<lambda>c. c \<noteq> CHR '','') s) of
        None \<Rightarrow> PNone
      | Some x \<Rightarrow> PFloat x)"
| "parse_float v = PNone"

text \<open>The numeric value of a Python number.\<close>

fun num_of :: "pyval \<Rightarrow> real option" where
  "num_of (PInt n) = Some (real_of_int n)"
| "num_of (PFloat x) = Some x"
| "num_of (PBool b) = Some (if b then 1 else 0)"
| "num_of v = None"

text \<open>
  Modelled from the spec: \<^verbatim>\<open>validate_range\<close> of \<^verbatim>\<open>utils.py\<close>, which is not under
  \<^verbatim>\<open>src/\<close>. The spec: it "fails to no value if the numeric value lies outside
  [low, high]"; a bound that is not given (\<^verbatim>\<open>lower=\<close> alone in \<^verbatim>\<open>items.py\<close>) does not
  restrict.
\<close>

definition in_range :: "int option \<Rightarrow> int option \<Rightarrow> real \<Rightarrow> bool" where
  "in_range lower upper x =
     ((case lower of None \<Rightarrow> True | Some lo \<Rightarrow> real_of_int lo \<le> x) \<and>
      (case upper of None \<Rightarrow> True | Some hi \<Rightarrow> x \<le> real_of_int hi))"

definition validate_range :: "int option \<Rightarrow> int option \<Rightarrow> pyval \<Rightarrow> pyval" where
  "validate_range lower upper value =
     (case num_of value of
        None \<Rightarrow> PNone
      | Some x \<Rightarrow> if in_range lower upper x then value else PNone)"

text \<open>\<^verbatim>\<open>lambda v: v or None\<close>\<close>

definition or_None :: "pyval \<Rightarrow> pyval" where
  "or_None v = (if truthy v then v else PNone)"

text \<open>
  The processors of \<^verbatim>\<open>items.py\<close>. \<open>text_stages\<close> stands for the functions
  \<^verbatim>\<open>identity, str, remove_tags, replace_entities, replace_entities, normalize_space\<close>
  (of \<^verbatim>\<open>utils.py\<close>, Python and w3lib) that clean the text before it is parsed;
  \<open>today_year\<close> is \<^verbatim>\<open>date.today().year\<close>.
\<close>

definition POS_INT_PROCESSOR :: "(pyval \<Rightarrow> pyval) list \<Rightarrow> pyval \<Rightarrow> pyval list" where
  "POS_INT_PROCESSOR text_stages =
     MapCompose (text_stages @ [parse_int, validate_range (Some 1) None])"

definition NN_INT_PROCESSOR :: "(pyval \<Rightarrow> pyval) list \<Rightarrow> pyval \<Rightarrow> pyval list" where
  "NN_INT_PROCESSOR text_stages =
     MapCompose (text_stages @ [parse_int, validate_range (Some 0) None])"

definition POS_FLOAT_PROCESSOR :: "(pyval \<Rightarrow> pyval) list \<Rightarrow> pyval \<Rightarrow> pyval list" where
  "POS_FLOAT_PROCESSOR text_stages =
     MapCompose (text_stages @ [parse_float, validate_range (Some 0) None, or_None])"

definition NN_FLOAT_PROCESSOR :: "(pyval \<Rightarrow> pyval) list \<Rightarrow> pyval \<Rightarrow> pyval list" where
  "NN_FLOAT_PROCESSOR text_stages =
     MapCompose (text_stages @ [parse_float, validate_range (Some 0) None])"

definition year_input_processor ::
  "(pyval \<Rightarrow> pyval) list \<Rightarrow> int \<Rightarrow> pyval \<Rightarrow> pyval list" where
  "year_input_processor text_stages today_year =
     MapCompose (text_stages @
       [parse_int, validate_range (Some (- 4000)) (Some (today_year + 10)), or_None])"

section \<open>\<^verbatim>\<open>LudingSpider.parse_game\<close>: the number of players\<close>








section \<open>The type contract\<close>

text \<open>
  A value satisfies a field's contract when the field declares no \<^verbatim>\<open>dtype\<close>, or the
  value is None or an instance of the \<^verbatim>\<open>dtype\<close>; an item is fully typed when each of
  its values satisfies the contract of its field.
\<close>

definition typed :: "field \<Rightarrow> pyval \<Rightarrow> bool" where
  "typed fld x = (case dtype fld of None \<Rightarrow> True | Some d \<Rightarrow> x = PNone \<or> isinstance x d)"

definition fully_typed :: "(string \<times> field) list \<Rightarrow> item \<Rightarrow> bool" where
  "fully_typed flds self =
     list_all (\<lambda>(k, x). case map_of flds k of None \<Rightarrow> False | Some f \<Rightarrow> typed f x) self"

text \<open>
  What one assignment to a declared field stores, apart from the item: the value the
  item holds for the key afterwards, with the error when the assignment raises.
\<close>

definition assign ::
  "(pytype \<Rightarrow> pyval \<Rightarrow> error + pyval) \<Rightarrow> field \<Rightarrow> string \<Rightarrow> pyval \<Rightarrow> (error \<times> pyval) + pyval" where
  "assign call_type fld key value =
     (let stored = setter_of fld value
      in case dtype fld of
           None \<Rightarrow> Inr stored
         | Some d \<Rightarrow>
             if stored = PNone \<or> isinstance stored d then Inr stored
             else
               (case dtype_convert fld of
                  None \<Rightarrow> Inl (ValueError_mismatch key d (type_of stored), stored)
                | Some convert \<Rightarrow>
                    if \<not> convert_truthy convert
                    then Inl (ValueError_mismatch key d (type_of stored), stored)
                    else
                      (case apply_convert call_type convert d stored of
                         Inl e \<Rightarrow> Inl (e, stored)
                       | Inr value' \<Rightarrow>
                           if isinstance value' d \<or> value' = PNone
                           then Inr (setter_of fld value')
                           else Inl (AssertionError, stored))))"

text \<open>No field of the table declares a \<^verbatim>\<open>setter\<close>, as in \<^verbatim>\<open>items.py\<close>.\<close>

definition no_setters :: "(string \<times> field) list \<Rightarrow> bool" where
  "no_setters flds = list_all (\<lambda>(k, f). setter f = None) flds"

text \<open>A raw value that \<^verbatim>\<open>parse\<close> skips: None, also for a missing key, or the empty string.\<close>

definition skipped :: "pyval \<Rightarrow> bool" where
  "skipped value = (value = PNone \<or> value = PStr [])"

text \<open>
  What \<^verbatim>\<open>parse\<close> does for one field, in the spec's words: it attempts the assignment, and
  on a \<^verbatim>\<open>ValueError\<close> it falls back to the field's parser and retries once; the value
  stored, or the error that leaves \<^verbatim>\<open>parse\<close>.
\<close>

definition parse_field ::
  "(pytype \<Rightarrow> pyval \<Rightarrow> error + pyval) \<Rightarrow> field \<Rightarrow> string \<Rightarrow> pyval \<Rightarrow> error + pyval" where
  "parse_field call_type fld key value =
     (case assign call_type fld key value of
        Inr x \<Rightarrow> Inr x
      | Inl (e, x) \<Rightarrow>
          if is_ValueError e
          then (case assign call_type fld key (parser_of fld value) of
                  Inr x' \<Rightarrow> Inr x'
                | Inl (e', x') \<Rightarrow> Inl e')
          else Inl e)"

section \<open>The request chain of \<^verbatim>\<open>BgaSpider\<close>\<close>

text \<open>
  The callbacks that \<^verbatim>\<open>_game_requests\<close> queues, the queue of \<^verbatim>\<open>(url, callback)\<close> pairs, and
  the \<^verbatim>\<open>meta\<close> dict \<^verbatim>\<open>{'item': item, 'game_requests': requests}\<close> of a request of the
  chain, of which the code reads these two keys with \<^verbatim>\<open>meta.get\<close>. The empty dict has
  neither.
\<close>

datatype stage = Parse_images | Parse_videos | Parse_reviews

type_synonym requests = "(string \<times> stage) list"

record meta =
  meta_item :: "item option"
  meta_game_requests :: "requests option"

definition empty_meta :: meta where
  "empty_meta = \<lparr>meta_item = None, meta_game_requests = None\<rparr>"

definition meta_truthy :: "meta \<Rightarrow> bool" where
  "meta_truthy m = (m \<noteq> empty_meta)"

text \<open>
  A request; \<^verbatim>\<open>partial(callback, item=item)\<close> is the pair of the callback and the item
  bound to it.
\<close>

record request =
  url :: string
  callback :: "stage \<times> item"
  errback :: "stage \<times> item"
  meta :: meta

text \<open>
  What a callback is called with, by the attributes that the code probes with
  \<^verbatim>\<open>hasattr\<close>: \<^verbatim>\<open>text\<close>, \<^verbatim>\<open>meta\<close>, and \<^verbatim>\<open>request.meta\<close>. An absent attribute is \<open>None\<close>.
\<close>

record response =
  response_text :: "string option"
  response_meta :: "meta option"
  response_request_meta :: "meta option"

datatype scraped = Item item | Request request

text \<open>
  \<^verbatim>\<open>_json_from_response\<close>; \<open>parse_json\<close> is the function of \<^verbatim>\<open>utils.py\<close>, which is not
  under \<^verbatim>\<open>src/\<close>.
\<close>

definition json_from_response :: "(string \<Rightarrow> pyval) \<Rightarrow> response \<Rightarrow> pyval" where
  "json_from_response parse_json response =
     (let result = (case response_text response of Some t \<Rightarrow> parse_json t | None \<Rightarrow> PNone)
      in if truthy result then result else PDict [])"

definition extract_meta :: "response \<Rightarrow> meta" where
  "extract_meta response =
     (case response_meta response of
        Some m \<Rightarrow>
          if meta_truthy m then m
          else (case response_request_meta response of
                  Some rm \<Rightarrow> if meta_truthy rm then rm else empty_meta
                | None \<Rightarrow> empty_meta)
      | None \<Rightarrow>
          (case response_request_meta response of
             Some rm \<Rightarrow> if meta_truthy rm then rm else empty_meta
           | None \<Rightarrow> empty_meta))"

text \<open>
  \<^verbatim>\<open>_extract_item\<close>; an item is true when it holds a value, and \<^verbatim>\<open>item_cls()\<close> is the
  item that holds none.
\<close>

definition extract_item :: "item option \<Rightarrow> response \<Rightarrow> item" where
  "extract_item item response =
     (if item \<noteq> None \<and> item \<noteq> Some [] then (case item of Some it \<Rightarrow> it | None \<Rightarrow> [])
      else (case meta_item (extract_meta response) of
              Some it \<Rightarrow> if it \<noteq> [] then it else []
            | None \<Rightarrow> []))"

definition extract_requests :: "response \<Rightarrow> requests option" where
  "extract_requests response = meta_game_requests (extract_meta response)"

text \<open>
  \<^verbatim>\<open>_next_request_or_item\<close>: the queue may be None or empty (\<^verbatim>\<open>not requests\<close>);
  \<^verbatim>\<open>requests.pop(0)\<close> removes the head, and the list that is left goes into \<^verbatim>\<open>meta\<close>.
\<close>

fun next_request_or_item :: "item \<Rightarrow> requests option \<Rightarrow> scraped" where
  "next_request_or_item item None = Item item"
| "next_request_or_item item (Some []) = Item item"
| "next_request_or_item item (Some ((u, cb) # requests)) =
     Request \<lparr>url = u, callback = (cb, item), errback = (cb, item),
       meta = \<lparr>meta_item = Some item, meta_game_requests = Some requests\<rparr>\<rparr>"

text \<open>
  The callbacks \<^verbatim>\<open>parse_images\<close>, \<^verbatim>\<open>parse_videos\<close> and \<^verbatim>\<open>parse_reviews\<close>. \<open>load\<close> stands
  for the \<^verbatim>\<open>GameJsonLoader\<close> of \<^verbatim>\<open>loaders.py\<close>, which is not under \<^verbatim>\<open>src/\<close>: for a
  stage, the item, the JSON object and the response, it is the item that
  \<^verbatim>\<open>ldr.load_item()\<close> returns after the stage's \<^verbatim>\<open>add_value\<close> and \<^verbatim>\<open>add_jmes\<close> calls.
\<close>

definition parse_images ::
  "(string \<Rightarrow> pyval) \<Rightarrow> (stage \<Rightarrow> item \<Rightarrow> pyval \<Rightarrow> response \<Rightarrow> item) \<Rightarrow> response \<Rightarrow> item option
     \<Rightarrow> scraped" where
  "parse_images parse_json load response item =
     (let item1 = extract_item item response;
          result = json_from_response parse_json response;
          item2 = load Parse_images item1 result response;
          requests = extract_requests response
      in next_request_or_item item2 requests)"

definition parse_videos ::
  "(string \<Rightarrow> pyval) \<Rightarrow> (stage \<Rightarrow> item \<Rightarrow> pyval \<Rightarrow> response \<Rightarrow> item) \<Rightarrow> response \<Rightarrow> item option
     \<Rightarrow> scraped" where
  "parse_videos parse_json load response item =
     (let item1 = extract_item item response;
          result = json_from_response parse_json response;
          item2 = load Parse_videos item1 result response;
          requests = extract_requests response
      in next_request_or_item item2 requests)"

definition parse_reviews ::
  "(string \<Rightarrow> pyval) \<Rightarrow> (stage \<Rightarrow> item \<Rightarrow> pyval \<Rightarrow> response \<Rightarrow> item) \<Rightarrow> response \<Rightarrow> item option
     \<Rightarrow> scraped" where
  "parse_reviews parse_json load response item =
     (let item1 = extract_item item response;
          result = json_from_response parse_json response;
          item2 = load Parse_reviews item1 result response;
          requests = extract_requests response
      in next_request_or_item item2 requests)"

text \<open>Calling \<^verbatim>\<open>partial(callback, item=item)\<close> with a response.\<close>

fun call_partial ::
  "(string \<Rightarrow> pyval) \<Rightarrow> (stage \<Rightarrow> item \<Rightarrow> pyval \<Rightarrow> response \<Rightarrow> item) \<Rightarrow> stage \<times> item \<Rightarrow> response
     \<Rightarrow> scraped" where
  "call_partial parse_json load (Parse_images, item) response =
     parse_images parse_json load response (Some item)"
| "call_partial parse_json load (Parse_videos, item) response =
     parse_videos parse_json load response (Some item)"
| "call_partial parse_json load (Parse_reviews, item) response =
     parse_reviews parse_json load response (Some item)"

text \<open>
  The crawl scheduler is scrapy's. \<open>download u\<close> is the body of the response to a request
  for \<open>u\<close>, or \<open>None\<close> when the request fails. A response carries its request's
  \<^verbatim>\<open>meta\<close> and goes to the request's \<^verbatim>\<open>callback\<close>; a failure has neither \<^verbatim>\<open>text\<close> nor
  \<^verbatim>\<open>meta\<close>, scrapy sets its \<^verbatim>\<open>request\<close>, and it goes to the \<^verbatim>\<open>errback\<close>.
\<close>

definition deliver ::
  "(string \<Rightarrow> pyval) \<Rightarrow> (stage \<Rightarrow> item \<Rightarrow> pyval \<Rightarrow> response \<Rightarrow> item) \<Rightarrow> (string \<Rightarrow> string option)
     \<Rightarrow> request \<Rightarrow> scraped" where
  "deliver parse_json load download req =
     (case download (url req) of
        Some body \<Rightarrow>
          call_partial parse_json load (callback req)
            \<lparr>response_text = Some body, response_meta = Some (meta req),
              response_request_meta = Some (meta req)\<rparr>
      | None \<Rightarrow>
          call_partial parse_json load (errback req)
            \<lparr>response_text = None, response_meta = None,
              response_request_meta = Some (meta req)\<rparr>)"

text \<open>The length of the queue that a request of the chain carries.\<close>

fun pending :: "scraped \<Rightarrow> nat" where
  "pending (Item item) = 0"
| "pending (Request req) =
     Suc (case meta_game_requests (meta req) of None \<Rightarrow> 0 | Some q \<Rightarrow> length q)"

text \<open>
  One chain, run to its end: the urls requested, in the order of the requests, and the
  item that the last callback returns.
\<close>

function crawl ::
  "(string \<Rightarrow> pyval) \<Rightarrow> (stage \<Rightarrow> item \<Rightarrow> pyval \<Rightarrow> response \<Rightarrow> item) \<Rightarrow> (string \<Rightarrow> string option)
     \<Rightarrow> string list \<Rightarrow> scraped \<Rightarrow> string list \<times> item" where
  "crawl parse_json load download urls (Item item) = (urls, item)"
| "crawl parse_json load download urls (Request req) =
     crawl parse_json load download (urls @ [url req]) (deliver parse_json load download req)"
  by pat_completeness auto

lemma pending_next_request_or_item:
  "pending (next_request_or_item it q) = (case q of None \<Rightarrow> 0 | Some q' \<Rightarrow> length q')"
  by (cases "(it, q)" rule: next_request_or_item.cases) auto

lemma extract_requests_response:
  "extract_requests \<lparr>response_text = t, response_meta = Some m, response_request_meta = Some m\<rparr>
     = meta_game_requests m"
  by (auto simp: extract_requests_def extract_meta_def meta_truthy_def empty_meta_def)

lemma extract_requests_failure:
  "extract_requests \<lparr>response_text = t, response_meta = None, response_request_meta = Some m\<rparr>
     = meta_game_requests m"
  by (auto simp: extract_requests_def extract_meta_def meta_truthy_def empty_meta_def)

lemma pending_call_partial:
  "pending (call_partial pj ld cb r) =
     (case extract_requests r of None \<Rightarrow> 0 | Some q \<Rightarrow> length q)"
proof (cases cb)
  case (Pair st it)
  then show ?thesis
    by (cases st)
      (simp_all add: parse_images_def parse_videos_def parse_reviews_def Let_def
        pending_next_request_or_item)
qed

lemma pending_deliver: "pending (deliver pj ld dl req) < pending (Request req)"
  by (simp add: deliver_def pending_call_partial extract_requests_response
      extract_requests_failure split: option.splits)

text \<open>
  Every callback hands the rest of the queue to \<^verbatim>\<open>_next_request_or_item\<close>, so the queue of
  the next request is shorter and the chain ends.
\<close>

termination crawl
  by (relation "measure (\<lambda>(pj, ld, dl, urls, s). pending s)")
    (simp_all add: pending_deliver del: pending.simps)

section \<open>Properties of \<^verbatim>\<open>TypedItem.__setitem__\<close>\<close>

lemma map_of_dict_set: "map_of (dict_set d k v) = (map_of d)(k \<mapsto> v)"
  by (induction d) (auto simp: fun_eq_iff)

lemma getitem_dict_set: "Item_getitem (dict_set d k v) k = Inr v"
  by (simp add: Item_getitem_def map_of_dict_set)

lemma dict_set_twice: "dict_set (dict_set d k v) k w = dict_set d k w"
  by (induction d) auto

lemma declared_key: "map_of flds key = Some f \<Longrightarrow> key \<in> fst ` set flds"
  by (metis map_of_SomeD fst_conv image_eqI)

lemma undeclared_key: "map_of flds key = None \<Longrightarrow> key \<notin> fst ` set flds"
  by (simp add: map_of_eq_None_iff)

lemma setitem_undeclared:
  "map_of flds key = None \<Longrightarrow> setitem C flds self key value = Inl (KeyError key, self)"
  by (simp add: setitem_def Item_setitem_def undeclared_key)

lemma setitem_assign:
  "map_of flds key = Some f \<Longrightarrow>
   setitem C flds self key value =
     (case assign C f key value of
        Inl (e, x) \<Rightarrow> Inl (e, dict_set self key x)
      | Inr x \<Rightarrow> Inr (dict_set self key x))"
  by (simp add: setitem_def assign_def Item_setitem_def declared_key getitem_dict_set
      dict_set_twice Let_def split: option.splits sum.splits)

lemma assign_typed:
  "assign C f key value = Inr x \<Longrightarrow> setter f = None \<Longrightarrow> typed f x"
  by (auto simp: assign_def typed_def setter_of_def IDENTITY_def Let_def
      split: option.splits if_splits sum.splits)

text \<open>
  C2: when the value stored into a field is neither None nor an instance of the field's
  declared type, the assignment without a converter fails with the \<^verbatim>\<open>ValueError\<close> that
  names the field, the declared type and the type found; with a converter, the converter
  is applied to the stored value and the check is run on what it returns, and the
  assignment fails only when that is again neither an instance of the type nor None.
\<close>

theorem setitem_mismatch:
  assumes "map_of flds key = Some f" and "dtype f = Some d"
    and "stored = setter_of f value" and "stored \<noteq> PNone" and "\<not> isinstance stored d"
  shows "(dtype_convert f = None \<longrightarrow>
            setitem C flds self key value =
              Inl (ValueError_mismatch key d (type_of stored), dict_set self key stored)) \<and>
         (\<forall>g. dtype_convert f = Some (Callable g) \<longrightarrow>
            setitem C flds self key value =
              (if isinstance (g stored) d \<or> g stored = PNone
               then Inr (dict_set self key (setter_of f (g stored)))
               else Inl (AssertionError, dict_set self key stored)))"
  using assms
  by (simp add: setitem_def Item_setitem_def declared_key getitem_dict_set dict_set_twice)

theorem setitem_mismatch_witness:
  "setitem (\<lambda>t v. Inr v) [(''name'', GameItem_name)] [] ''name'' (PInt 5) =
     Inl (ValueError_mismatch ''name'' (Single TStr) TInt, [(''name'', PInt 5)]) \<and>
   setitem (\<lambda>t v. Inr v) [(''year'', GameItem_year)] [] ''year'' (PStr ''1995'') =
     Inr [(''year'', PInt 1995)]"
proof -
  have a: "dtype_convert GameItem_name = None \<longrightarrow>
      setitem (\<lambda>t v. Inr v) [(''name'', GameItem_name)] [] ''name'' (PInt 5) =
        Inl (ValueError_mismatch ''name'' (Single TStr) (type_of (PInt 5)),
             dict_set [] ''name'' (PInt 5))"
    using setitem_mismatch [of "[(''name'', GameItem_name)]" "''name''" GameItem_name
        "Single TStr" "PInt 5" "PInt 5" "\<lambda>t v. Inr v" "[]"]
    by (simp add: GameItem_name_def setter_of_def IDENTITY_def issubclass_def)
  have b: "dtype_convert GameItem_year = Some (Callable parse_int) \<longrightarrow>
      setitem (\<lambda>t v. Inr v) [(''year'', GameItem_year)] [] ''year'' (PStr ''1995'') =
        (if isinstance (parse_int (PStr ''1995'')) (Single TInt) \<or>
            parse_int (PStr ''1995'') = PNone
         then Inr (dict_set [] ''year'' (setter_of GameItem_year (parse_int (PStr ''1995''))))
         else Inl (AssertionError, dict_set [] ''year'' (PStr ''1995'')))"
    using setitem_mismatch [of "[(''year'', GameItem_year)]" "''year''" GameItem_year
        "Single TInt" "PStr ''1995''" "PStr ''1995''" "\<lambda>t v. Inr v" "[]"]
    by (simp add: GameItem_year_def setter_of_def IDENTITY_def issubclass_def)
  have c: "parse_int (PStr ''1995'') = PInt 1995"
    by (simp add: digit_value_def)
  from a b show ?thesis
    unfolding c
    by (simp add: GameItem_name_def GameItem_year_def setter_of_def IDENTITY_def
        issubclass_def)
qed




section \<open>Properties of the boolean fields\<close>

text \<open>
  C8: the token \<^verbatim>\<open>yes\<close> parses to True, which the serializer of the boolean fields emits
  as 1 (and False as 0); the token \<^verbatim>\<open>maybe\<close> parses to no value, so \<^verbatim>\<open>parse\<close> leaves the
  field None, which the serializer emits as None, that is, absent. Shown for
  \<^verbatim>\<open>cooperative\<close> of \<^verbatim>\<open>GameItem\<close> (parser only) and \<^verbatim>\<open>bgg_user_owned\<close> of
  \<^verbatim>\<open>RatingItem\<close> (converter and parser).
\<close>

theorem bool_round_trip:
  "parse_bool (PStr ''yes'') = PBool True \<and>
   serialize_bool (PBool True) = PInt 1 \<and> serialize_bool (PBool False) = PInt 0 \<and>
   parse_bool (PStr ''maybe'') = PNone \<and> serialize_bool PNone = PNone \<and>
   parse C [(''cooperative'', GameItem_cooperative)] [''cooperative'' \<mapsto> PStr ''yes''] =
     Inr [(''cooperative'', PBool True)] \<and>
   parse C [(''cooperative'', GameItem_cooperative)] [''cooperative'' \<mapsto> PStr ''maybe''] =
     Inr [(''cooperative'', PNone)] \<and>
   parse C [(''bgg_user_owned'', RatingItem_bgg_user_owned)]
       [''bgg_user_owned'' \<mapsto> PStr ''yes''] = Inr [(''bgg_user_owned'', PBool True)] \<and>
   parse C [(''bgg_user_owned'', RatingItem_bgg_user_owned)]
       [''bgg_user_owned'' \<mapsto> PStr ''maybe''] = Inr [(''bgg_user_owned'', PNone)]"
  by (simp add: parse_def setitem_def Item_setitem_def Item_getitem_def
      GameItem_cooperative_def RatingItem_bgg_user_owned_def setter_of_def IDENTITY_def
      issubclass_def parse_bool_def dict_get_def parser_of_def)

text \<open>
  C9: \<^verbatim>\<open>_serialize_bool\<close> returns None for every value that is not a bool, the integers 0
  and 1 among them, so serializing what it returned for True gives None and not 1: the
  serializer is not idempotent.
\<close>

theorem serialize_bool_not_idempotent:
  "(type_of v \<noteq> TBool \<longrightarrow> serialize_bool v = PNone) \<and>
   serialize_bool (PInt 0) = PNone \<and> serialize_bool (PInt 1) = PNone \<and>
   serialize_bool (PBool True) = PInt 1 \<and>
   serialize_bool (serialize_bool (PBool True)) = PNone"
  by (cases v) simp_all

theorem serialize_bool_not_idempotent_witness:
  "type_of (PStr ''yes'') \<noteq> TBool \<and> serialize_bool (PStr ''yes'') = PNone \<and>
   serialize_bool (serialize_bool (PBool True)) \<noteq> serialize_bool (PBool True)"
  using serialize_bool_not_idempotent [of "PStr ''yes''"] by simp

section \<open>Properties of the input processors\<close>

lemma MapCompose_snoc:
  "MapCompose (fs @ [g]) c = concat (map (\<lambda>v. arg_to_iter (g v)) (MapCompose fs c))"
  by (simp add: MapCompose_def)


lemma arg_to_iter_number: "num_of v = Some x \<Longrightarrow> arg_to_iter v = [v]"
  by (cases v) simp_all

lemma truthy_number: "num_of v = Some x \<Longrightarrow> truthy v = (x \<noteq> 0)"
  by (cases v) (auto split: if_splits)

lemma validate_range_stage:
  "num_of v = Some x \<Longrightarrow>
   arg_to_iter (validate_range lower upper v) = (if in_range lower upper x then [v] else [])"
  by (simp add: validate_range_def arg_to_iter_number)

lemma or_None_stage:
  "num_of v = Some x \<Longrightarrow> arg_to_iter (or_None v) = (if x \<noteq> 0 then [v] else [])"
  by (simp add: or_None_def truthy_number arg_to_iter_number)

lemma range_stage:
  "MapCompose (fs @ [p]) c = [v] \<Longrightarrow> num_of v = Some x \<Longrightarrow>
   MapCompose (fs @ [p, validate_range lower upper]) c =
     (if in_range lower upper x then [v] else [])"
  using MapCompose_snoc [of "fs @ [p]" "validate_range lower upper" c]
  by (simp add: validate_range_stage)

lemma range_or_None_stage:
  "MapCompose (fs @ [p]) c = [v] \<Longrightarrow> num_of v = Some x \<Longrightarrow>
   MapCompose (fs @ [p, validate_range lower upper, or_None]) c =
     (if in_range lower upper x \<and> x \<noteq> 0 then [v] else [])"
  using MapCompose_snoc [of "fs @ [p, validate_range lower upper]" or_None c]
    range_stage [of fs p c v x lower upper]
  by (simp add: or_None_stage)

text \<open>
  C6, as the code has it. Let \<open>x\<close> be the numeric value that the text stages and the
  parser give for a candidate \<open>c\<close>. Every processor drops the candidate when \<open>x\<close> is
  outside the declared bounds. \<^verbatim>\<open>POS_INT_PROCESSOR\<close> (from 1), \<^verbatim>\<open>NN_INT_PROCESSOR\<close> and
  \<^verbatim>\<open>NN_FLOAT_PROCESSOR\<close> (from 0) keep it when \<open>x\<close> is within the bounds, the bound
  included. \<^verbatim>\<open>POS_FLOAT_PROCESSOR\<close> and the processor of \<^verbatim>\<open>year\<close> end with
  \<^verbatim>\<open>lambda v: v or None\<close> and so drop 0 as well: \<^verbatim>\<open>POS_FLOAT_PROCESSOR\<close> keeps the
  candidate exactly when \<open>0 < x\<close>, its lower bound 0 excluded, and \<^verbatim>\<open>year\<close> keeps it
  when \<open>x\<close> is from -4000 to this year plus 10, both included, and not 0.
\<close>

theorem range_enforcement:
  assumes "num_of v = Some x"
  shows "(MapCompose (text_stages @ [parse_int]) c = [v] \<longrightarrow>
            POS_INT_PROCESSOR text_stages c = (if 1 \<le> x then [v] else []) \<and>
            NN_INT_PROCESSOR text_stages c = (if 0 \<le> x then [v] else []) \<and>
            year_input_processor text_stages today_year c =
              (if - 4000 \<le> x \<and> x \<le> real_of_int (today_year + 10) \<and> x \<noteq> 0
               then [v] else [])) \<and>
         (MapCompose (text_stages @ [parse_float]) c = [v] \<longrightarrow>
            POS_FLOAT_PROCESSOR text_stages c = (if 0 < x then [v] else []) \<and>
            NN_FLOAT_PROCESSOR text_stages c = (if 0 \<le> x then [v] else []))"
  using assms
  by (auto simp: POS_INT_PROCESSOR_def NN_INT_PROCESSOR_def year_input_processor_def
      POS_FLOAT_PROCESSOR_def NN_FLOAT_PROCESSOR_def range_stage range_or_None_stage
      in_range_def)

theorem range_enforcement_witness:
  "num_of (PInt 1) = Some 1 \<and> MapCompose ([] @ [parse_int]) (PStr ''1'') = [PInt 1] \<and>
   POS_INT_PROCESSOR [] (PStr ''1'') = [PInt 1] \<and>
   NN_INT_PROCESSOR [] (PStr ''1'') = [PInt 1] \<and>
   year_input_processor [] 2026 (PStr ''1'') = [PInt 1]"
proof -
  have n: "num_of (PInt 1) = Some 1" by simp
  have p: "MapCompose ([] @ [parse_int]) (PStr ''1'') = [PInt 1]"
    by (simp add: MapCompose_def digit_value_def)
  from range_enforcement [OF n, of "[]" "PStr ''1''" 2026] n p show ?thesis
    by simp
qed

text \<open>
  The claim C6 as the spec states it, that the bounds themselves are accepted, fails at
  the lower bound of \<^verbatim>\<open>POS_FLOAT_PROCESSOR\<close>: the candidate \<^verbatim>\<open>'0'\<close>, which the text
  stages leave as it is, parses to 0.0, which \<^verbatim>\<open>validate_range(lower=0)\<close> lets through
  and \<^verbatim>\<open>lambda v: v or None\<close> turns into None. \<^verbatim>\<open>NN_FLOAT_PROCESSOR\<close>, with the same
  bound and without the lambda, keeps it.
\<close>

theorem range_enforcement_counterexample:
  "MapCompose ([] @ [parse_float]) (PStr ''0'') = [PFloat 0] \<and> num_of (PFloat 0) = Some 0 \<and>
   in_range (Some 0) None 0 \<and> POS_FLOAT_PROCESSOR [] (PStr ''0'') = [] \<and>
   NN_FLOAT_PROCESSOR [] (PStr ''0'') = [PFloat 0]"
  by (simp add: MapCompose_def POS_FLOAT_PROCESSOR_def NN_FLOAT_PROCESSOR_def digit_value_def
      unsigned_float_def validate_range_def in_range_def or_None_def)

section \<open>Properties of \<^verbatim>\<open>LudingSpider.parse_game\<close>\<close>




section \<open>Properties of the request chain\<close>

lemma call_partial_step:
  "call_partial pj ld (st, it) r =
     next_request_or_item (ld st (extract_item (Some it) r) (json_from_response pj r) r)
       (extract_requests r)"
  by (cases st) (simp_all add: parse_images_def parse_videos_def parse_reviews_def Let_def)

lemma extract_item_bound:
  "meta_item (extract_meta r) = Some it \<Longrightarrow> extract_item (Some it) r = it"
  by (simp add: extract_item_def)

lemma extract_meta_response:
  "extract_meta \<lparr>response_text = t, response_meta = Some m, response_request_meta = Some m\<rparr> = m"
  by (simp add: extract_meta_def meta_truthy_def)

lemma extract_meta_failure:
  "extract_meta \<lparr>response_text = t, response_meta = None, response_request_meta = Some m\<rparr> = m"
  by (simp add: extract_meta_def meta_truthy_def)


lemma deliver_chain:
  "deliver pj ld dl
     \<lparr>url = u, callback = (st, it), errback = (st, it),
       meta = \<lparr>meta_item = Some it, meta_game_requests = Some rest\<rparr>\<rparr> =
   (let m = \<lparr>meta_item = Some it, meta_game_requests = Some rest\<rparr>;
        r = (case dl u of
               Some body \<Rightarrow> \<lparr>response_text = Some body, response_meta = Some m,
                              response_request_meta = Some m\<rparr>
             | None \<Rightarrow> \<lparr>response_text = None, response_meta = None,
                         response_request_meta = Some m\<rparr>)
    in next_request_or_item (ld st it (json_from_response pj r) r) (Some rest))"
  by (simp add: deliver_def call_partial_step extract_item_bound extract_meta_response
      extract_meta_failure extract_requests_def Let_def split: option.splits)

lemma crawl_urls:
  "fst (crawl pj ld dl urls (next_request_or_item it (Some q))) = urls @ map fst q"
proof (induction q arbitrary: it urls)
  case Nil
  then show ?case by simp
next
  case (Cons a q)
  obtain u st where a: "a = (u, st)" by (cases a)
  show ?case
    unfolding a by (simp add: deliver_chain Let_def Cons.IH)
qed

text \<open>
  C4: with no queue or an empty queue, \<^verbatim>\<open>_next_request_or_item\<close> returns the item itself;
  with a queue, it removes the head pair and returns the request to the head's url, with
  the head's callback bound to the item as callback and as errback, and with the item
  and the rest of the queue in \<^verbatim>\<open>meta\<close>. Run to its end, the chain requests the urls of
  the queue, each once and in the order of the queue, one request at a time.
\<close>

theorem chain_advance:
  "next_request_or_item item None = Item item \<and>
   next_request_or_item item (Some []) = Item item \<and>
   next_request_or_item item (Some ((u, cb) # rest)) =
     Request \<lparr>url = u, callback = (cb, item), errback = (cb, item),
       meta = \<lparr>meta_item = Some item, meta_game_requests = Some rest\<rparr>\<rparr> \<and>
   fst (crawl parse_json load download [] (next_request_or_item item (Some q))) = map fst q"
  by (simp add: crawl_urls)

theorem chain_advance_witness:
  "next_request_or_item [(''name'', PStr ''Catan'')]
     (Some [(''images'', Parse_images), (''videos'', Parse_videos)]) =
     Request \<lparr>url = ''images'',
       callback = (Parse_images, [(''name'', PStr ''Catan'')]),
       errback = (Parse_images, [(''name'', PStr ''Catan'')]),
       meta = \<lparr>meta_item = Some [(''name'', PStr ''Catan'')],
                meta_game_requests = Some [(''videos'', Parse_videos)]\<rparr>\<rparr> \<and>
   fst (crawl (\<lambda>t. PNone) (\<lambda>st it j r. it) (\<lambda>u. None) []
     (next_request_or_item [(''name'', PStr ''Catan'')]
        (Some [(''images'', Parse_images), (''videos'', Parse_videos)]))) =
     [''images'', ''videos'']"
  using chain_advance [of "[(''name'', PStr ''Catan'')]" "''images''" Parse_images
      "[(''videos'', Parse_videos)]" "\<lambda>t. PNone" "\<lambda>st it j r. it" "\<lambda>u. None"
      "[(''images'', Parse_images), (''videos'', Parse_videos)]"]
  by simp



section \<open>Properties of \<^verbatim>\<open>TypedItem.clean\<close>\<close>

lemma dict_set_fresh: "k \<notin> fst ` set d \<Longrightarrow> dict_set d k v = d @ [(k, v)]"
  by (induction d) auto

lemma keys_dict_set: "fst ` set (dict_set d k v) = insert k (fst ` set d)"
  by (simp add: dom_map_of_conv_image_fst [symmetric] map_of_dict_set)

lemma distinct_dict_set: "distinct (map fst d) \<Longrightarrow> distinct (map fst (dict_set d k v))"
  by (induction d) (auto simp: keys_dict_set)

lemma fully_typed_dict_set:
  "fully_typed flds d \<Longrightarrow> map_of flds k = Some f \<Longrightarrow> typed f v \<Longrightarrow>
   fully_typed flds (dict_set d k v)"
  by (induction d) (auto simp: fully_typed_def)

lemma no_setters_field: "no_setters flds \<Longrightarrow> map_of flds k = Some f \<Longrightarrow> setter f = None"
  by (auto simp: no_setters_def list_all_iff dest: map_of_SomeD)

lemma setitem_Inr:
  assumes "setitem C flds self k v = Inr self'"
  obtains f x where "map_of flds k = Some f" and "assign C f k v = Inr x"
    and "self' = dict_set self k x"
proof (cases "map_of flds k")
  case None
  with assms show ?thesis by (simp add: setitem_undeclared)
next
  case (Some f)
  with assms that [of f] show ?thesis
    by (auto simp: setitem_assign split: sum.splits)
qed

lemma assign_of_typed:
  "typed f x \<Longrightarrow> setter f = None \<Longrightarrow> assign C f k x = Inr x"
  by (auto simp: assign_def typed_def setter_of_def IDENTITY_def split: option.splits)

lemma Item_init_invariant:
  "Item_init C flds kvs self = Inr self' \<Longrightarrow> no_setters flds \<Longrightarrow>
   distinct (map fst self) \<Longrightarrow> fully_typed flds self \<Longrightarrow>
   distinct (map fst self') \<and> fully_typed flds self'"
proof (induction kvs arbitrary: self)
  case Nil
  then show ?case by simp
next
  case (Cons a kvs)
  obtain k v where a: "a = (k, v)" by (cases a)
  from Cons.prems(1) obtain self1 where s1: "setitem C flds self k v = Inr self1"
    and rest: "Item_init C flds kvs self1 = Inr self'"
    by (auto simp: a split: sum.splits)
  from s1 obtain f x where f: "map_of flds k = Some f" and x: "assign C f k v = Inr x"
    and self1: "self1 = dict_set self k x"
    by (rule setitem_Inr)
  from Cons.prems(2) f have "setter f = None" by (rule no_setters_field)
  with x have "typed f x" by (rule assign_typed)
  with Cons.prems(4) f have "fully_typed flds self1"
    unfolding self1 by (rule fully_typed_dict_set)
  moreover from Cons.prems(3) have "distinct (map fst self1)"
    unfolding self1 by (rule distinct_dict_set)
  ultimately show ?case
    using Cons.IH [OF rest Cons.prems(2)] by simp
qed

lemma Item_init_typed:
  "no_setters flds \<Longrightarrow> fully_typed flds kvs \<Longrightarrow> distinct (map fst (self @ kvs)) \<Longrightarrow>
   Item_init C flds kvs self = Inr (self @ kvs)"
proof (induction kvs arbitrary: self)
  case Nil
  then show ?case by simp
next
  case (Cons a kvs)
  obtain k x where a: "a = (k, x)" by (cases a)
  from Cons.prems(2) obtain f where f: "map_of flds k = Some f" and t: "typed f x"
    and rest: "fully_typed flds kvs"
    by (auto simp: a fully_typed_def split: option.splits)
  from Cons.prems(1) f have "setter f = None" by (rule no_setters_field)
  with t have "assign C f k x = Inr x" by (rule assign_of_typed)
  moreover from Cons.prems(3) have "k \<notin> fst ` set self" by (auto simp: a)
  ultimately have step: "setitem C flds self k x = Inr (self @ [(k, x)])"
    using f by (simp add: setitem_assign dict_set_fresh)
  from Cons.prems(3) have "distinct (map fst ((self @ [(k, x)]) @ kvs))" by (simp add: a)
  from Cons.IH [OF Cons.prems(1) rest this] step show ?case by (simp add: a)
qed

lemma fully_typed_declared:
  "fully_typed flds y \<Longrightarrow>
   filter (\<lambda>(k, v). truthy v \<and> k \<in> fst ` set flds) y = filter (\<lambda>(k, v). truthy v) y"
proof -
  assume "fully_typed flds y"
  then have "k \<in> fst ` set flds" if "(k, v) \<in> set y" for k v
  proof -
    from \<open>fully_typed flds y\<close> that obtain f where "map_of flds k = Some f"
      by (fastforce simp: fully_typed_def list_all_iff split: option.splits)
    then show ?thesis by (rule declared_key)
  qed
  then show ?thesis
    by (intro filter_cong) auto
qed

lemma fully_typed_filter: "fully_typed flds y \<Longrightarrow> fully_typed flds (filter P y)"
  by (simp add: fully_typed_def list_all_iff)

lemma clean_of_typed:
  assumes "no_setters flds" and "fully_typed flds y" and "distinct (map fst y)"
  shows "clean C flds y = Inr (filter (\<lambda>(k, v). truthy v) y)"
proof -
  have "distinct (map fst ([] @ filter (\<lambda>(k, v). truthy v) y))"
    using assms(3) by (simp add: distinct_map_filter)
  with assms(1) fully_typed_filter [OF assms(2)]
  have "Item_init C flds (filter (\<lambda>(k, v). truthy v) y) [] =
      Inr ([] @ filter (\<lambda>(k, v). truthy v) y)"
    by (rule Item_init_typed)
  then show ?thesis
    by (simp add: clean_def fully_typed_declared [OF assms(2)])
qed

text \<open>
  C7, as the code has it. \<^verbatim>\<open>clean\<close> filters the values of its input by truth, and what
  it stores it may have converted: a stored value can be 0, False, None or empty. For a
  table without setters, when \<^verbatim>\<open>clean(x)\<close> returns an item \<open>y\<close>, \<^verbatim>\<open>clean(y)\<close> returns
  \<open>y\<close> without its false values, and that item is a fixed point of \<^verbatim>\<open>clean\<close>; so
  \<^verbatim>\<open>clean(clean(x)) = clean(x)\<close> when every value of \<^verbatim>\<open>clean(x)\<close> is true.
\<close>

theorem clean_twice:
  assumes "clean C flds x = Inr y" and "no_setters flds"
  shows "clean C flds y = Inr (filter (\<lambda>(k, v). truthy v) y) \<and>
         clean C flds (filter (\<lambda>(k, v). truthy v) y) = Inr (filter (\<lambda>(k, v). truthy v) y) \<and>
         (list_all (\<lambda>(k, v). truthy v) y \<longrightarrow> clean C flds y = Inr y)"
proof -
  have "distinct (map fst ([] :: item))" and "fully_typed flds []"
    by (simp_all add: fully_typed_def)
  with assms have y: "distinct (map fst y) \<and> fully_typed flds y"
    unfolding clean_def by (intro Item_init_invariant)
  then have 1: "clean C flds y = Inr (filter (\<lambda>(k, v). truthy v) y)"
    using assms(2) by (simp add: clean_of_typed)
  from y have "distinct (map fst (filter (\<lambda>(k, v). truthy v) y))"
    and "fully_typed flds (filter (\<lambda>(k, v). truthy v) y)"
    by (simp_all add: distinct_map_filter fully_typed_filter)
  with assms(2)
  have 2: "clean C flds (filter (\<lambda>(k, v). truthy v) y) = Inr (filter (\<lambda>(k, v). truthy v) y)"
    by (simp add: clean_of_typed)
  have 3: "list_all (\<lambda>(k, v). truthy v) y \<longrightarrow> clean C flds y = Inr y"
    using 1 by (simp add: list_all_iff)
  from 1 2 3 show ?thesis by blast
qed

theorem clean_twice_witness:
  "clean (\<lambda>t v. Inr v) [(''year'', GameItem_year)] [(''year'', PStr ''1995'')] =
     Inr [(''year'', PInt 1995)] \<and>
   no_setters [(''year'', GameItem_year)] \<and>
   clean (\<lambda>t v. Inr v) [(''year'', GameItem_year)] [(''year'', PInt 1995)] =
     Inr [(''year'', PInt 1995)]"
proof -
  have run: "clean (\<lambda>t v. Inr v) [(''year'', GameItem_year)] [(''year'', PStr ''1995'')] =
     Inr [(''year'', PInt 1995)]"
    by (simp add: clean_def setitem_def Item_setitem_def Item_getitem_def GameItem_year_def
        setter_of_def IDENTITY_def issubclass_def digit_value_def)
  have ns: "no_setters [(''year'', GameItem_year)]"
    by (simp add: no_setters_def GameItem_year_def)
  from clean_twice [OF run ns] run ns show ?thesis by simp
qed

text \<open>
  The claim C7 as the spec states it fails where a converter returns a false value:
  \<^verbatim>\<open>num_votes = Field(dtype=int, dtype_convert=parse_int, ...)\<close> stores 0 for the true
  string \<^verbatim>\<open>'0'\<close>, and the second \<^verbatim>\<open>clean\<close> filters the 0 out.
\<close>

theorem clean_idempotent_counterexample:
  "clean (\<lambda>t v. Inr v) [(''num_votes'', GameItem_num_votes)] [(''num_votes'', PStr ''0'')] =
     Inr [(''num_votes'', PInt 0)] \<and>
   clean (\<lambda>t v. Inr v) [(''num_votes'', GameItem_num_votes)] [(''num_votes'', PInt 0)] =
     Inr [] \<and>
   map_of [(''num_votes'', PInt 0)] ''num_votes'' \<noteq> map_of ([] :: item) ''num_votes''"
  by (simp add: clean_def setitem_def Item_setitem_def Item_getitem_def GameItem_num_votes_def
      setter_of_def IDENTITY_def issubclass_def digit_value_def)

section \<open>Properties of \<^verbatim>\<open>TypedItem.parse\<close>\<close>

lemma parse_field_step:
  "map_of flds key = Some f \<Longrightarrow>
   (case setitem C flds article key value of
      Inr article1 \<Rightarrow> k article1
    | Inl (e, article1) \<Rightarrow>
        if is_ValueError e
        then (case setitem C flds article1 key (parser_of f value) of
                Inr article2 \<Rightarrow> k article2
              | Inl (e2, article2) \<Rightarrow> Inl e2)
        else Inl e) =
   (case parse_field C f key value of
      Inr x \<Rightarrow> k (dict_set article key x)
    | Inl e \<Rightarrow> Inl e)"
  by (auto simp: parse_field_def setitem_assign dict_set_twice split: sum.splits if_splits)

lemma parse_loop_step:
  "map_of flds key = Some f \<Longrightarrow>
   parse_loop C flds ((key, f) # rest) raw article =
     (if skipped (dict_get raw key) then parse_loop C flds rest raw article
      else (case parse_field C f key (dict_get raw key) of
              Inr x \<Rightarrow> parse_loop C flds rest raw (dict_set article key x)
            | Inl e \<Rightarrow> Inl e))"
  by (simp add: skipped_def Let_def parse_field_step)

lemma parse_field_typed:
  "parse_field C f key value = Inr x \<Longrightarrow> setter f = None \<Longrightarrow> typed f x"
  by (auto simp: parse_field_def split: sum.splits if_splits dest: assign_typed)

lemma parse_loop_frame:
  assumes "parse_loop C flds rest raw article = Inr result"
    and "\<forall>(k, f) \<in> set rest. map_of flds k = Some f"
    and "key \<notin> fst ` set rest \<or> skipped (dict_get raw key)"
  shows "map_of result key = map_of article key"
  using assms
proof (induction rest arbitrary: article)
  case Nil
  then show ?case by simp
next
  case (Cons a rest)
  obtain k f where a: "a = (k, f)" by (cases a)
  from Cons.prems(2) have f: "map_of flds k = Some f"
    and rest: "\<forall>(k, f) \<in> set rest. map_of flds k = Some f"
    by (simp_all add: a)
  have step: "parse_loop C flds (a # rest) raw article =
     (if skipped (dict_get raw k) then parse_loop C flds rest raw article
      else (case parse_field C f k (dict_get raw k) of
              Inr x \<Rightarrow> parse_loop C flds rest raw (dict_set article k x)
            | Inl e \<Rightarrow> Inl e))"
    unfolding a by (rule parse_loop_step [OF f])
  from Cons.prems(3) have key: "key \<notin> fst ` set rest \<or> skipped (dict_get raw key)"
    by auto
  show ?case
  proof (cases "skipped (dict_get raw k)")
    case True
    with Cons.prems(1) have "parse_loop C flds rest raw article = Inr result"
      by (simp add: step)
    from Cons.IH [OF this rest key] show ?thesis .
  next
    case False
    with Cons.prems(1) obtain x where x: "parse_field C f k (dict_get raw k) = Inr x"
      and loop: "parse_loop C flds rest raw (dict_set article k x) = Inr result"
      by (auto simp: step split: sum.splits)
    from Cons.prems(3) False have "key \<noteq> k"
      by (auto simp: a)
    with Cons.IH [OF loop rest key] show ?thesis
      by (simp add: map_of_dict_set)
  qed
qed

lemma parse_loop_values:
  assumes "parse_loop C flds rest raw article = Inr result"
    and "\<forall>(k, f) \<in> set rest. map_of flds k = Some f" and "distinct (map fst rest)"
    and "key \<in> fst ` set rest" and "\<not> skipped (dict_get raw key)"
  shows "\<exists>f x. map_of flds key = Some f \<and> parse_field C f key (dict_get raw key) = Inr x \<and>
           map_of result key = Some x"
  using assms
proof (induction rest arbitrary: article)
  case Nil
  then show ?case by simp
next
  case (Cons a rest)
  obtain k f where a: "a = (k, f)" by (cases a)
  from Cons.prems(2) have f: "map_of flds k = Some f"
    and rest: "\<forall>(k, f) \<in> set rest. map_of flds k = Some f"
    by (simp_all add: a)
  have step: "parse_loop C flds (a # rest) raw article =
     (if skipped (dict_get raw k) then parse_loop C flds rest raw article
      else (case parse_field C f k (dict_get raw k) of
              Inr x \<Rightarrow> parse_loop C flds rest raw (dict_set article k x)
            | Inl e \<Rightarrow> Inl e))"
    unfolding a by (rule parse_loop_step [OF f])
  from Cons.prems(3) have fresh: "k \<notin> fst ` set rest" and dist: "distinct (map fst rest)"
    by (auto simp: a)
  from Cons.prems(4) have key: "key = k \<or> key \<in> fst ` set rest"
    by (auto simp: a)
  show ?case
  proof (cases "skipped (dict_get raw k)")
    case True
    with Cons.prems(1) have loop: "parse_loop C flds rest raw article = Inr result"
      by (simp add: step)
    from True Cons.prems(5) key have "key \<in> fst ` set rest" by auto
    from Cons.IH [OF loop rest dist this Cons.prems(5)] show ?thesis .
  next
    case False
    with Cons.prems(1) obtain x where x: "parse_field C f k (dict_get raw k) = Inr x"
      and loop: "parse_loop C flds rest raw (dict_set article k x) = Inr result"
      by (auto simp: step split: sum.splits)
    show ?thesis
    proof (cases "key \<in> fst ` set rest")
      case True
      from Cons.IH [OF loop rest dist this Cons.prems(5)] show ?thesis .
    next
      case False
      with key have "key = k" by simp
      from fresh have "k \<notin> fst ` set rest \<or> skipped (dict_get raw k)" by simp
      with loop rest have "map_of result k = map_of (dict_set article k x) k"
        by (rule parse_loop_frame)
      with x f \<open>key = k\<close> show ?thesis
        by (simp add: map_of_dict_set)
    qed
  qed
qed

lemma parse_loop_typed:
  assumes "parse_loop C flds rest raw article = Inr result"
    and "\<forall>(k, f) \<in> set rest. map_of flds k = Some f"
    and "no_setters flds" and "fully_typed flds article"
  shows "fully_typed flds result"
  using assms
proof (induction rest arbitrary: article)
  case Nil
  then show ?case by simp
next
  case (Cons a rest)
  obtain k f where a: "a = (k, f)" by (cases a)
  from Cons.prems(2) have f: "map_of flds k = Some f"
    and rest: "\<forall>(k, f) \<in> set rest. map_of flds k = Some f"
    by (simp_all add: a)
  have step: "parse_loop C flds (a # rest) raw article =
     (if skipped (dict_get raw k) then parse_loop C flds rest raw article
      else (case parse_field C f k (dict_get raw k) of
              Inr x \<Rightarrow> parse_loop C flds rest raw (dict_set article k x)
            | Inl e \<Rightarrow> Inl e))"
    unfolding a by (rule parse_loop_step [OF f])
  show ?case
  proof (cases "skipped (dict_get raw k)")
    case True
    with Cons.prems(1) f have "parse_loop C flds rest raw article = Inr result"
      by (simp add: step)
    from Cons.IH [OF this rest Cons.prems(3,4)] show ?thesis .
  next
    case False
    with Cons.prems(1) f obtain x where x: "parse_field C f k (dict_get raw k) = Inr x"
      and loop: "parse_loop C flds rest raw (dict_set article k x) = Inr result"
      by (auto simp: step split: sum.splits)
    from Cons.prems(3) f have "setter f = None" by (rule no_setters_field)
    with x have "typed f x" by (rule parse_field_typed)
    with Cons.prems(4) f have "fully_typed flds (dict_set article k x)"
      by (rule fully_typed_dict_set)
    from Cons.IH [OF loop rest Cons.prems(3) this] show ?thesis .
  qed
qed

lemma parse_loop_error:
  assumes "parse_loop C flds rest raw article = Inl e"
    and "\<forall>(k, f) \<in> set rest. map_of flds k = Some f"
  shows "\<exists>key f. map_of flds key = Some f \<and> \<not> skipped (dict_get raw key) \<and>
           parse_field C f key (dict_get raw key) = Inl e"
  using assms
proof (induction rest arbitrary: article)
  case Nil
  then show ?case by simp
next
  case (Cons a rest)
  obtain k f where a: "a = (k, f)" by (cases a)
  from Cons.prems(2) have f: "map_of flds k = Some f"
    and rest: "\<forall>(k, f) \<in> set rest. map_of flds k = Some f"
    by (simp_all add: a)
  have step: "parse_loop C flds (a # rest) raw article =
     (if skipped (dict_get raw k) then parse_loop C flds rest raw article
      else (case parse_field C f k (dict_get raw k) of
              Inr x \<Rightarrow> parse_loop C flds rest raw (dict_set article k x)
            | Inl e \<Rightarrow> Inl e))"
    unfolding a by (rule parse_loop_step [OF f])
  show ?case
  proof (cases "skipped (dict_get raw k)")
    case True
    with Cons.prems(1) f have "parse_loop C flds rest raw article = Inl e"
      by (simp add: step)
    from Cons.IH [OF this rest] show ?thesis .
  next
    case False
    show ?thesis
    proof (cases "parse_field C f k (dict_get raw k)")
      case (Inl e')
      with Cons.prems(1) f False have "e' = e"
        by (simp add: step)
      with Inl f False show ?thesis by blast
    next
      case (Inr x)
      with Cons.prems(1) f False
      have "parse_loop C flds rest raw (dict_set article k x) = Inl e"
        by (simp add: step)
      from Cons.IH [OF this rest] show ?thesis .
    qed
  qed
qed

lemma declared_fields:
  "distinct (map fst flds) \<Longrightarrow> \<forall>(k, f) \<in> set flds. map_of flds k = Some f"
  by auto

text \<open>
  C3, as the code has it, for a table of fields with distinct keys. When \<^verbatim>\<open>parse\<close>
  returns, the item holds exactly the declared fields whose raw value is neither None
  nor the empty string, each with the value that the first assignment stored or, after
  a \<^verbatim>\<open>ValueError\<close> of the first, the one retry with the field's parser; the fields whose
  raw value is None or empty are not in it; and when no field declares a setter the item
  is fully typed. When the retry fails as well, or the first assignment fails with
  another error than \<^verbatim>\<open>ValueError\<close>, that error leaves \<^verbatim>\<open>parse\<close> and there is no item.
\<close>

theorem parse_result:
  assumes "distinct (map fst flds)"
  shows "(\<forall>article. parse C flds raw = Inr article \<longrightarrow>
            (no_setters flds \<longrightarrow> fully_typed flds article) \<and>
            (\<forall>key. case map_of article key of
                      None \<Rightarrow> map_of flds key = None \<or> skipped (dict_get raw key)
                    | Some x \<Rightarrow>
                        \<not> skipped (dict_get raw key) \<and>
                        (\<exists>f. map_of flds key = Some f \<and>
                           parse_field C f key (dict_get raw key) = Inr x))) \<and>
         (\<forall>e. parse C flds raw = Inl e \<longrightarrow>
            (\<exists>key f. map_of flds key = Some f \<and> \<not> skipped (dict_get raw key) \<and>
               parse_field C f key (dict_get raw key) = Inl e))"
proof (intro conjI allI impI)
  fix article
  assume p: "parse C flds raw = Inr article"
  assume "no_setters flds"
  with p declared_fields [OF assms] show "fully_typed flds article"
    unfolding parse_def by (rule parse_loop_typed) (simp add: fully_typed_def)
next
  fix article key
  assume p: "parse C flds raw = Inr article"
  note loop = p [unfolded parse_def]
  show "case map_of article key of
          None \<Rightarrow> map_of flds key = None \<or> skipped (dict_get raw key)
        | Some x \<Rightarrow>
            \<not> skipped (dict_get raw key) \<and>
            (\<exists>f. map_of flds key = Some f \<and> parse_field C f key (dict_get raw key) = Inr x)"
  proof (cases "key \<in> fst ` set flds \<and> \<not> skipped (dict_get raw key)")
    case True
    then have "key \<in> fst ` set flds" and "\<not> skipped (dict_get raw key)" by simp_all
    with loop declared_fields [OF assms] assms
    have "\<exists>f x. map_of flds key = Some f \<and> parse_field C f key (dict_get raw key) = Inr x \<and>
        map_of article key = Some x"
      by (rule parse_loop_values)
    with True show ?thesis by auto
  next
    case False
    then have "key \<notin> fst ` set flds \<or> skipped (dict_get raw key)" by simp
    with loop declared_fields [OF assms] have "map_of article key = map_of [] key"
      by (rule parse_loop_frame)
    moreover from False have "map_of flds key = None \<or> skipped (dict_get raw key)"
      by (auto simp: map_of_eq_None_iff)
    ultimately show ?thesis by simp
  qed
next
  fix e
  assume "parse C flds raw = Inl e"
  then show "\<exists>key f. map_of flds key = Some f \<and> \<not> skipped (dict_get raw key) \<and>
      parse_field C f key (dict_get raw key) = Inl e"
    unfolding parse_def using declared_fields [OF assms] by (rule parse_loop_error)
qed

theorem parse_result_witness:
  "distinct (map fst [(''name'', GameItem_name), (''cooperative'', GameItem_cooperative),
      (''year'', GameItem_year)]) \<and>
   no_setters [(''name'', GameItem_name), (''cooperative'', GameItem_cooperative),
      (''year'', GameItem_year)] \<and>
   parse (\<lambda>t v. Inr v)
     [(''name'', GameItem_name), (''cooperative'', GameItem_cooperative),
      (''year'', GameItem_year)]
     [''name'' \<mapsto> PStr ''Catan'', ''cooperative'' \<mapsto> PStr ''yes'', ''year'' \<mapsto> PStr '''']
     = Inr [(''name'', PStr ''Catan''), (''cooperative'', PBool True)] \<and>
   fully_typed [(''name'', GameItem_name), (''cooperative'', GameItem_cooperative),
      (''year'', GameItem_year)] [(''name'', PStr ''Catan''), (''cooperative'', PBool True)]"
proof -
  let ?F = "[(''name'', GameItem_name), (''cooperative'', GameItem_cooperative),
      (''year'', GameItem_year)]"
  let ?raw = "[''name'' \<mapsto> PStr ''Catan'', ''cooperative'' \<mapsto> PStr ''yes'',
      ''year'' \<mapsto> PStr '''']"
  have d: "distinct (map fst ?F)" by simp
  have ns: "no_setters ?F"
    by (simp add: no_setters_def GameItem_name_def GameItem_cooperative_def GameItem_year_def)
  have run: "parse (\<lambda>t v. Inr v) ?F ?raw =
      Inr [(''name'', PStr ''Catan''), (''cooperative'', PBool True)]"
    by (simp add: parse_def setitem_def Item_setitem_def Item_getitem_def GameItem_name_def
        GameItem_cooperative_def GameItem_year_def setter_of_def IDENTITY_def issubclass_def
        parse_bool_def dict_get_def parser_of_def)
  from parse_result [OF d, of "\<lambda>t v. Inr v" ?raw] run ns
  have "fully_typed ?F [(''name'', PStr ''Catan''), (''cooperative'', PBool True)]"
    by blast
  with d ns run show ?thesis by blast
qed

text \<open>
  The claim C3 as the spec states it, that the result is a fully typed record, fails in
  two ways. \<^verbatim>\<open>name = Field(dtype=str, required=True)\<close> has neither converter nor
  parser: for the raw value 5 both assignments raise and \<^verbatim>\<open>parse\<close> returns no record.
  And with a setter, as for C1, the record returned is not fully typed.
\<close>

theorem parse_result_counterexample:
  "parse (\<lambda>t v. Inr v) [(''name'', GameItem_name)] [''name'' \<mapsto> PInt 5] =
     Inl (ValueError_mismatch ''name'' (Single TStr) TInt) \<and>
   parse (\<lambda>t v. Inr v) [(''year'', GameItem_year\<lparr>setter := Some (\<lambda>v. PList [v])\<rparr>)]
     [''year'' \<mapsto> PInt 1995] = Inr [(''year'', PList [PNone])] \<and>
   \<not> fully_typed [(''year'', GameItem_year\<lparr>setter := Some (\<lambda>v. PList [v])\<rparr>)]
     [(''year'', PList [PNone])]"
  by (simp add: parse_def setitem_def Item_setitem_def Item_getitem_def GameItem_name_def
      GameItem_year_def setter_of_def IDENTITY_def issubclass_def dict_get_def parser_of_def
      fully_typed_def typed_def)

end
